theory Spec2Isabelle
  imports Main
begin

section \<open>The persistence store (\<^verbatim>\<open>autoreply/_store.py\<close>)\<close>

text \<open>
  The store talks to an SQL database with three tables, created empty by
  \<^verbatim>\<open>schema_v1\<close>. A table is modelled as the list of its rows in insertion order,
  the columns of a row in the order of the \<^verbatim>\<open>CREATE TABLE\<close> statement. A
  \<^verbatim>\<open>SELECT\<close> reads the rows in that order, \<^verbatim>\<open>fetchval\<close> returns the first
  column of the first selected row or \<^verbatim>\<open>None\<close>, and an \<^verbatim>\<open>INSERT\<close> whose
  primary key is already in the table raises and leaves the table as it was.
  The database connection itself is taken to be available: the only storage error
  modelled is the violation of a primary key.
\<close>

datatype error =
    UniqueViolation  \<comment> \<open>an \<^verbatim>\<open>INSERT\<close> hit an existing primary key\<close>
  | RequestError     \<comment> \<open>a request of the Matrix client failed\<close>

record db =
  autoreply_management_rooms :: "(string \<times> string) list"
    \<comment> \<open>\<^verbatim>\<open>user_id TEXT PRIMARY KEY, room_id TEXT NOT NULL\<close>\<close>
  autoreply_messages :: "(string \<times> string \<times> string) list"
    \<comment> \<open>\<^verbatim>\<open>room_id TEXT PRIMARY KEY, event_id TEXT NOT NULL, user_id TEXT NOT NULL\<close>\<close>
  autoreply_user_away :: "(string \<times> bool) list"
    \<comment> \<open>\<^verbatim>\<open>user_id TEXT PRIMARY KEY, is_away BOOLEAN NOT NULL\<close>\<close>

definition schema_v1 :: db where
  "schema_v1 =
     \<lparr>autoreply_management_rooms = [], autoreply_messages = [], autoreply_user_away = []\<rparr>"

text \<open>
  Every method of \<^verbatim>\<open>AutoReplyBotStore\<close> takes the store's \<^verbatim>\<open>self.user_id\<close> as its
  first argument here. A method that writes returns the database after the call; one
  that can raise returns the outcome next to it.
\<close>

definition get_management_room :: "string \<Rightarrow> db \<Rightarrow> string option" where
  "get_management_room user_id d =
     map_option snd (find (\<lambda>(u, r). u = user_id) (autoreply_management_rooms d))"

definition store_management_room :: "string \<Rightarrow> string \<Rightarrow> db \<Rightarrow> (error + unit) \<times> db" where
  "store_management_room user_id room_id d =
     (case find (\<lambda>(u, r). u = user_id) (autoreply_management_rooms d) of
        Some _ \<Rightarrow> (Inl UniqueViolation, d)
      | None \<Rightarrow>
          (Inr (), d\<lparr>autoreply_management_rooms :=
                       autoreply_management_rooms d @ [(user_id, room_id)]\<rparr>))"

definition get_message_id_in_room :: "string \<Rightarrow> string \<Rightarrow> db \<Rightarrow> string option" where
  "get_message_id_in_room user_id room_id d =
     map_option (\<lambda>(r, e, u). e)
       (find (\<lambda>(r, e, u). r = room_id \<and> u = user_id) (autoreply_messages d))"

definition store_message :: "string \<Rightarrow> string \<Rightarrow> string \<Rightarrow> db \<Rightarrow> (error + unit) \<times> db" where
  "store_message user_id event_id room_id d =
     (case find (\<lambda>(r, e, u). r = room_id) (autoreply_messages d) of
        Some _ \<Rightarrow> (Inl UniqueViolation, d)
      | None \<Rightarrow>
          (Inr (), d\<lparr>autoreply_messages :=
                       autoreply_messages d @ [(room_id, event_id, user_id)]\<rparr>))"

definition clear_messages :: "string \<Rightarrow> db \<Rightarrow> db" where
  "clear_messages user_id d =
     d\<lparr>autoreply_messages := filter (\<lambda>(r, e, u). u \<noteq> user_id) (autoreply_messages d)\<rparr>"

definition get_missed_messages :: "string \<Rightarrow> db \<Rightarrow> (string \<times> string) list" where
  "get_missed_messages user_id d =
     map (\<lambda>(r, e, u). (r, e)) (filter (\<lambda>(r, e, u). u = user_id) (autoreply_messages d))"

text \<open>
  \<^verbatim>\<open>INSERT ... ON CONFLICT(user_id) DO UPDATE SET is_away = EXCLUDED.is_away\<close>:
  without a row of the user the new row is appended, otherwise the row in conflict
  takes the new flag.
\<close>

definition update_away_state :: "string \<Rightarrow> bool \<Rightarrow> db \<Rightarrow> db" where
  "update_away_state user_id is_away d =
     (case find (\<lambda>(u, a). u = user_id) (autoreply_user_away d) of
        None \<Rightarrow> d\<lparr>autoreply_user_away := autoreply_user_away d @ [(user_id, is_away)]\<rparr>
      | Some _ \<Rightarrow>
          d\<lparr>autoreply_user_away :=
              map (\<lambda>(u, a). if u = user_id then (u, is_away) else (u, a))
                (autoreply_user_away d)\<rparr>)"

definition is_away :: "string \<Rightarrow> db \<Rightarrow> bool" where
  "is_away user_id d =
     (case map_option snd (find (\<lambda>(u, a). u = user_id) (autoreply_user_away d)) of
        None \<Rightarrow> False
      | Some ret \<Rightarrow> ret)"

text \<open>The primary keys of the three tables: no key occurs in two rows.\<close>

definition primary_keys :: "db \<Rightarrow> bool" where
  "primary_keys d \<longleftrightarrow>
     distinct (map fst (autoreply_management_rooms d)) \<and>
     distinct (map fst (autoreply_messages d)) \<and>
     distinct (map fst (autoreply_user_away d))"


section \<open>The plugin (\<^verbatim>\<open>autoreply/__init__.py\<close>)\<close>

text \<open>
  \<^verbatim>\<open>str.startswith\<close>: the prefix is the beginning of the string.
\<close>

definition startswith :: "string \<Rightarrow> string \<Rightarrow> bool" where
  "startswith s p \<longleftrightarrow> take (length p) s = p"

definition generate_room_entry :: "string \<Rightarrow> string \<Rightarrow> string" where
  "generate_room_entry room_id event_id =
     (let entry = ''['' @ room_id @ ''](https://matrix.to/#/'' @ room_id @ '')'';
          entry = entry @ '' ([view message](https://matrix.to/#/'' @ room_id @ ''/''
                    @ event_id @ ''))''
      in entry)"

text \<open>
  The fields of a \<^verbatim>\<open>MessageEvent\<close> that the plugin reads; \<open>body\<close> is
  \<^verbatim>\<open>evt.content.body\<close>.
\<close>

record event =
  sender :: string
  room_id :: string
  event_id :: string
  body :: string

text \<open>
  What \<^verbatim>\<open>evt.reply\<close> hands to the transport: the room and the event replied to, the
  content, and the \<^verbatim>\<open>markdown\<close> argument (\<open>None\<close> where the call does not pass it).
  The transport is taken to deliver every reply; the replies sent so far are kept in
  order in the \<open>outbox\<close>.
\<close>

record sent_reply =
  in_room :: string
  in_reply_to :: string
  content :: string
  markdown :: "bool option"

text \<open>
  The plugin instance and the world it acts on: \<open>mxid\<close> is \<^verbatim>\<open>self.client.mxid\<close>, which
  \<^verbatim>\<open>start\<close> also gives to the store as its \<^verbatim>\<open>user_id\<close>; \<open>message\<close> is
  \<^verbatim>\<open>self.config["message"]\<close>; \<open>m_direct\<close> is what
  \<^verbatim>\<open>self.client.get_account_data("m.direct")\<close> answers, a dictionary from keys to
  lists of room ids, or the error it raises.
\<close>

record bot =
  mxid :: string
  management_room :: string
  message :: string
  m_direct :: "error + (string \<times> string list) list"
  database :: db
  outbox :: "sent_reply list"

definition reply :: "event \<Rightarrow> string \<Rightarrow> bool option \<Rightarrow> bot \<Rightarrow> bot" where
  "reply evt c md b =
     b\<lparr>outbox := outbox b @
         [\<lparr>in_room = room_id evt, in_reply_to = event_id evt, content = c, markdown = md\<rparr>]\<rparr>"

text \<open>The two nested \<^verbatim>\<open>for\<close> loops of \<^verbatim>\<open>_is_direct\<close>, inner loop first.\<close>

fun is_direct_rooms :: "string list \<Rightarrow> string \<Rightarrow> bool" where
  "is_direct_rooms [] rid = False"
| "is_direct_rooms (room # rooms) rid = (if room = rid then True else is_direct_rooms rooms rid)"

fun is_direct_items :: "(string \<times> string list) list \<Rightarrow> string \<Rightarrow> bool" where
  "is_direct_items [] rid = False"
| "is_direct_items ((k, rooms) # items) rid =
     (if is_direct_rooms rooms rid then True else is_direct_items items rid)"

definition is_direct :: "bot \<Rightarrow> string \<Rightarrow> error + bool" where
  "is_direct b rid =
     (case m_direct b of
        Inl e \<Rightarrow> Inl e
      | Inr data \<Rightarrow> Inr (is_direct_items data rid))"

text \<open>
  \<^verbatim>\<open>_auto_reply\<close>. The condition is a chain of \<^verbatim>\<open>and\<close>: the account data is
  only asked for when the three tests before it have passed, and an error raised there,
  or by the \<^verbatim>\<open>INSERT\<close> after the reply, ends the handler with that error.
\<close>

definition auto_reply :: "event \<Rightarrow> bot \<Rightarrow> (error + unit) \<times> bot" where
  "auto_reply evt b =
     (if sender evt \<noteq> mxid b
         \<and> is_away (mxid b) (database b)
         \<and> get_message_id_in_room (mxid b) (room_id evt) (database b) = None
      then
        (case is_direct b (room_id evt) of
           Inl e \<Rightarrow> (Inl e, b)
         | Inr False \<Rightarrow> (Inr (), b)
         | Inr True \<Rightarrow>
             (let b1 = reply evt (message b) None b;
                  (res, d) = store_message (mxid b1) (event_id evt) (room_id evt) (database b1)
              in (res, b1\<lparr>database := d\<rparr>)))
      else (Inr (), b))"

definition generate_missed_messages_summary :: "bot \<Rightarrow> string \<times> bot" where
  "generate_missed_messages_summary b =
     (let messages = get_missed_messages (mxid b) (database b)
      in if length messages = 0
         then (''You haven't missed any message while you were away.'', b)
         else
           (foldl (\<lambda>summary (room_id, event_id).
                     summary @ ''\<newline>* '' @ generate_room_entry room_id event_id)
              ''While you were away, you have missed messages in the following DM(s):\<newline>''
              messages,
            b))"

text \<open>\<^verbatim>\<open>_handle_management_command\<close>: three \<^verbatim>\<open>if\<close> statements, one after the other.\<close>

definition handle_management_command :: "event \<Rightarrow> bot \<Rightarrow> (error + unit) \<times> bot" where
  "handle_management_command evt b =
     (let b1 = (if startswith (body evt) ''!clear''
                then reply evt ''Cleared messages'' None
                       (b\<lparr>database := clear_messages (mxid b) (database b)\<rparr>)
                else b);
          b2 = (if startswith (body evt) ''!away''
                then reply evt ''Your status has been updated. Have a nice break!'' None
                       (b1\<lparr>database := update_away_state (mxid b1) True (database b1)\<rparr>)
                else b1);
          b3 = (if startswith (body evt) ''!back''
                then
                  (let s1 = b2\<lparr>database := update_away_state (mxid b2) False (database b2)\<rparr>;
                       reply_content = ''Your status has been updated. Welcome back!\<newline>\<newline>'';
                       (summary, s2) = generate_missed_messages_summary s1;
                       reply_content = reply_content @ summary;
                       s3 = reply evt reply_content (Some True) s2
                   in s3\<lparr>database := clear_messages (mxid s3) (database s3)\<rparr>)
                else b2)
      in (Inr (), b3))"

definition handle_message :: "event \<Rightarrow> bot \<Rightarrow> (error + unit) \<times> bot" where
  "handle_message evt b =
     (if room_id evt = management_room b
      then handle_management_command evt b
      else auto_reply evt b)"

text \<open>Handling a list of events in the order they arrive; an error of one handler does
  not stop the next event from being handled.\<close>

fun handle_messages :: "event list \<Rightarrow> bot \<Rightarrow> bot" where
  "handle_messages [] b = b"
| "handle_messages (evt # evts) b = handle_messages evts (snd (handle_message evt b))"


section \<open>Sequences of store calls\<close>

text \<open>
  The calls that write to the database, each with the \<^verbatim>\<open>user_id\<close> of the store
  instance that makes it. Several instances, of different users, may work on the same
  tables: every table has a \<^verbatim>\<open>user_id\<close> column and every query filters on it.
  \<open>calls\<close> runs a list of calls from a database; a call that raises leaves the
  database as it was.
\<close>

datatype store_call =
    StoreManagementRoom string string
  | StoreMessage string string string
  | ClearMessages string
  | UpdateAwayState string bool

fun call :: "store_call \<Rightarrow> db \<Rightarrow> db" where
  "call (StoreManagementRoom user_id r) d = snd (store_management_room user_id r d)"
| "call (StoreMessage user_id e r) d = snd (store_message user_id e r d)"
| "call (ClearMessages user_id) d = clear_messages user_id d"
| "call (UpdateAwayState user_id a) d = update_away_state user_id a d"

fun calls :: "store_call list \<Rightarrow> db \<Rightarrow> db" where
  "calls [] d = d"
| "calls (c # cs) d = calls cs (call c d)"


section \<open>Example states and events\<close>

text \<open>
  \<open>away_bot\<close>: the owner is away, the room \<^verbatim>\<open>!dm:example.org\<close> is a direct room and has
  no marker. \<open>missed_bot\<close>: the same after a first message in that room was recorded.
  \<open>shared_bot\<close>: the messages table holds a marker for that room written by the store of
  another user. \<open>offline_bot\<close>: the request for the account data fails.
\<close>

definition away_bot :: bot where
  "away_bot =
     \<lparr>mxid = ''@owner:example.org'',
      management_room = ''!mgmt:example.org'',
      message = ''I am away.'',
      m_direct = Inr [(''@alice:example.org'', [''!dm:example.org''])],
      database =
        \<lparr>autoreply_management_rooms = [(''@owner:example.org'', ''!mgmt:example.org'')],
         autoreply_messages = [(''!elsewhere:example.org'', ''$x'', ''@other:example.org'')],
         autoreply_user_away = [(''@owner:example.org'', True)]\<rparr>,
      outbox = []\<rparr>"

definition missed_bot :: bot where
  "missed_bot =
     away_bot\<lparr>database := (database away_bot)\<lparr>autoreply_messages :=
       [(''!elsewhere:example.org'', ''$x'', ''@other:example.org''),
        (''!dm:example.org'', ''$a'', ''@owner:example.org'')]\<rparr>\<rparr>"

definition shared_bot :: bot where
  "shared_bot =
     away_bot\<lparr>database := (database away_bot)\<lparr>autoreply_messages :=
       [(''!dm:example.org'', ''$old'', ''@other:example.org'')]\<rparr>\<rparr>"

definition offline_bot :: bot where
  "offline_bot = away_bot\<lparr>m_direct := Inl RequestError\<rparr>"

definition msg_a :: event where
  "msg_a = \<lparr>sender = ''@alice:example.org'', room_id = ''!dm:example.org'',
            event_id = ''$a'', body = ''hello''\<rparr>"

definition msg_b :: event where
  "msg_b = \<lparr>sender = ''@alice:example.org'', room_id = ''!dm:example.org'',
            event_id = ''$b'', body = ''are you there?''\<rparr>"

definition cmd_back :: event where
  "cmd_back = \<lparr>sender = ''@owner:example.org'', room_id = ''!mgmt:example.org'',
               event_id = ''$c'', body = ''!back''\<rparr>"

definition cmd_clear :: event where
  "cmd_clear = \<lparr>sender = ''@owner:example.org'', room_id = ''!mgmt:example.org'',
                event_id = ''$d'', body = ''!clear''\<rparr>"

lemmas examples = away_bot_def missed_bot_def shared_bot_def offline_bot_def
  msg_a_def msg_b_def cmd_back_def cmd_clear_def


section \<open>Rows and keys\<close>

lemma find_fst_None: "find (\<lambda>(u, a). u = k) rows = None \<longleftrightarrow> k \<notin> fst ` set rows"
  by (induction rows) auto

lemma find_fst_distinct:
  "distinct (map fst rows) \<Longrightarrow> (k, v) \<in> set rows \<Longrightarrow> find (\<lambda>(u, a). u = k) rows = Some (k, v)"
  by (induction rows) (auto simp: rev_image_eqI)

lemma find_room_None:
  "find (\<lambda>(r, e, u). r = k) rows = None \<longleftrightarrow> k \<notin> fst ` set rows"
  by (induction rows) auto

lemma find_append_row:
  "find P (rows @ [x]) =
     (case find P rows of None \<Rightarrow> (if P x then Some x else None) | Some y \<Rightarrow> Some y)"
  by (induction rows) auto

lemma find_update_row:
  "find (\<lambda>(u, a). u = k) (map (\<lambda>(u, a). if u = k then (u, v) else (u, a)) rows)
     = map_option (\<lambda>(u, a). (u, v)) (find (\<lambda>(u, a). u = k) rows)"
  by (induction rows) auto

lemma update_row_twice:
  "(\<lambda>(u, a). if u = k then (u, v) else (u, a)) \<circ> (\<lambda>(u, a). if u = k then (u, v) else (u, a))
   = (\<lambda>(u, a). if u = k then (u, v) else (u, a :: 'b))"
  by (auto simp: fun_eq_iff)

lemma update_rows_absent:
  "find (\<lambda>(u, a). u = k) rows = None \<Longrightarrow>
     map (\<lambda>(u, a). if u = k then (u, v) else (u, a)) rows = rows"
  by (induction rows) (auto split: if_splits)

lemma update_rows_keys:
  "map fst (map (\<lambda>(u, a). if u = k then (u, v) else (u, a)) rows) = map fst rows"
  by (induction rows) auto

lemma no_row_of_key:
  "k \<notin> fst ` set rows \<Longrightarrow> filter (\<lambda>(u, a). u = k) rows = []"
  by (induction rows) auto

lemma one_row_of_key:
  "distinct (map fst rows) \<Longrightarrow> k \<in> fst ` set rows \<Longrightarrow>
     length (filter (\<lambda>(u, a). u = k) rows) = 1"
  by (induction rows) (auto simp: no_row_of_key)

lemma no_row_of_room:
  "k \<notin> fst ` set rows \<Longrightarrow> filter (\<lambda>(r, e, u). r = k) rows = []"
  by (induction rows) auto

lemma at_most_one_row_of_room:
  "distinct (map fst rows) \<Longrightarrow> length (filter (\<lambda>(r, e, u). r = k) rows) \<le> 1"
  by (induction rows) (auto simp: no_row_of_room)

text \<open>
  Where every row of a room belongs to the user, the user-scoped lookup of
  \<^verbatim>\<open>get_message_id_in_room\<close> and the key check of the \<^verbatim>\<open>INSERT\<close> agree.
\<close>

lemma no_row_in_room:
  assumes "\<forall>(r, e, u) \<in> set rows. r = rid \<longrightarrow> u = uid"
    and "find (\<lambda>(r, e, u). r = rid \<and> u = uid) rows = None"
  shows "find (\<lambda>(r, e, u). r = rid) rows = None"
  using assms by (auto simp: find_None_iff)


section \<open>The store operations\<close>

lemma is_away_update [simp]: "is_away u (update_away_state u v d) = v"
  by (auto simp: is_away_def update_away_state_def find_update_row find_append_row
      split: option.splits)

lemma update_away_state_twice:
  "update_away_state u v (update_away_state u v d) = update_away_state u v d"
  by (auto simp: update_away_state_def find_update_row find_append_row update_row_twice
      update_rows_absent split: option.splits)

lemma away_keys_update:
  "map fst (autoreply_user_away (update_away_state u v d)) =
     (if u \<in> fst ` set (autoreply_user_away d) then map fst (autoreply_user_away d)
      else map fst (autoreply_user_away d) @ [u])"
  by (auto simp: update_away_state_def update_rows_keys find_fst_None [symmetric]
      split: option.splits)

lemma messages_update_away [simp]:
  "autoreply_messages (update_away_state u v d) = autoreply_messages d"
  by (simp add: update_away_state_def split: option.splits)

lemma management_rooms_update_away [simp]:
  "autoreply_management_rooms (update_away_state u v d) = autoreply_management_rooms d"
  by (simp add: update_away_state_def split: option.splits)

lemma get_missed_messages_update_away [simp]:
  "get_missed_messages u (update_away_state u' v d) = get_missed_messages u d"
  by (simp add: get_missed_messages_def)

lemma get_missed_messages_clear [simp]:
  "get_missed_messages u (clear_messages u d) = []"
  by (simp add: get_missed_messages_def clear_messages_def filter_empty_conv split_def)

lemma get_message_id_in_room_clear [simp]:
  "get_message_id_in_room u r (clear_messages u d) = None"
  by (auto simp: get_message_id_in_room_def clear_messages_def find_None_iff)

lemma is_away_clear [simp]: "is_away u (clear_messages u' d) = is_away u d"
  by (simp add: is_away_def clear_messages_def)

lemma get_management_room_clear [simp]:
  "get_management_room u (clear_messages u' d) = get_management_room u d"
  by (simp add: get_management_room_def clear_messages_def)

text \<open>Every call keeps the primary keys, so every database the store can build has them.\<close>

lemma primary_keys_update_away:
  "primary_keys d \<Longrightarrow> primary_keys (update_away_state u v d)"
  unfolding primary_keys_def away_keys_update
  by (auto simp: update_away_state_def split: option.splits)

lemma primary_keys_store_management_room:
  "primary_keys d \<Longrightarrow> primary_keys (snd (store_management_room u r d))"
  by (auto simp: primary_keys_def store_management_room_def find_fst_None split: option.splits)

lemma primary_keys_store_message:
  "primary_keys d \<Longrightarrow> primary_keys (snd (store_message u e r d))"
  by (auto simp: primary_keys_def store_message_def find_room_None split: option.splits)

lemma primary_keys_clear_messages:
  "primary_keys d \<Longrightarrow> primary_keys (clear_messages u d)"
  by (simp add: primary_keys_def clear_messages_def distinct_map_filter)

lemma primary_keys_call: "primary_keys d \<Longrightarrow> primary_keys (call c d)"
  by (cases c)
    (simp_all add: primary_keys_store_management_room primary_keys_store_message
      primary_keys_clear_messages primary_keys_update_away)

lemma primary_keys_calls: "primary_keys d \<Longrightarrow> primary_keys (calls cs d)"
  by (induction cs arbitrary: d) (simp_all add: primary_keys_call)

lemma primary_keys_schema_v1: "primary_keys schema_v1"
  by (simp add: primary_keys_def schema_v1_def)


section \<open>The handlers\<close>

lemma startswith_iff: "startswith s p \<longleftrightarrow> (\<exists>zs. s = p @ zs)"
  unfolding startswith_def
  by (metis append_eq_conv_conj append_take_drop_id)

lemma prefixes_exclusive:
  "\<not> (startswith s ''!clear'' \<and> startswith s ''!away'')"
  "\<not> (startswith s ''!clear'' \<and> startswith s ''!back'')"
  "\<not> (startswith s ''!away'' \<and> startswith s ''!back'')"
  by (auto simp: startswith_iff)

lemma is_direct_rooms_iff: "is_direct_rooms rooms rid \<longleftrightarrow> rid \<in> set rooms"
  by (induction rooms) auto

lemma is_direct_items_iff:
  "is_direct_items data rid \<longleftrightarrow> (\<exists>(k, rooms) \<in> set data. rid \<in> set rooms)"
  by (induction data) (auto simp: is_direct_rooms_iff)

text \<open>The loop of the summary appends one entry per marker to what it has so far.\<close>

lemma foldl_append_entries:
  "foldl (\<lambda>summary (r, e). summary @ f r e) acc ms = acc @ concat (map (\<lambda>(r, e). f r e) ms)"
  by (induction ms arbitrary: acc) auto

lemma summary_update_away:
  "fst (generate_missed_messages_summary (b\<lparr>database := update_away_state u v (database b)\<rparr>))
     = fst (generate_missed_messages_summary b)"
  by (simp add: generate_missed_messages_summary_def Let_def)

lemma summary_state [simp]: "snd (generate_missed_messages_summary b) = b"
  by (simp add: generate_missed_messages_summary_def Let_def)

text \<open>
  No body starts with two of the three prefixes, so the three \<^verbatim>\<open>if\<close> statements of
  \<^verbatim>\<open>_handle_management_command\<close> act as one choice.
\<close>

lemma handle_management_command_cases:
  "handle_management_command evt b =
     (Inr (),
      if startswith (body evt) ''!clear''
      then reply evt ''Cleared messages'' None
             (b\<lparr>database := clear_messages (mxid b) (database b)\<rparr>)
      else if startswith (body evt) ''!away''
      then reply evt ''Your status has been updated. Have a nice break!'' None
             (b\<lparr>database := update_away_state (mxid b) True (database b)\<rparr>)
      else if startswith (body evt) ''!back''
      then (reply evt
              (''Your status has been updated. Welcome back!\<newline>\<newline>''
                 @ fst (generate_missed_messages_summary b))
              (Some True)
              (b\<lparr>database := update_away_state (mxid b) False (database b)\<rparr>))
           \<lparr>database := clear_messages (mxid b) (update_away_state (mxid b) False (database b))\<rparr>
      else b)"
  using prefixes_exclusive [of "body evt"]
  by (auto simp: handle_management_command_def Let_def split_def reply_def summary_update_away)

text \<open>
  \<^verbatim>\<open>_auto_reply\<close> in any room: when one of the first three tests fails nothing
  happens; when they pass, the account data decides, and only the reply and the
  \<^verbatim>\<open>INSERT\<close> of a direct room touch the state.
\<close>

lemma auto_reply_skipped:
  assumes "\<not> (sender evt \<noteq> mxid b \<and> is_away (mxid b) (database b)
        \<and> get_message_id_in_room (mxid b) (room_id evt) (database b) = None)"
  shows "auto_reply evt b = (Inr (), b)"
  using assms by (auto simp: auto_reply_def)

lemma auto_reply_asked:
  assumes "sender evt \<noteq> mxid b" "is_away (mxid b) (database b)"
    "get_message_id_in_room (mxid b) (room_id evt) (database b) = None"
  shows "auto_reply evt b =
    (case m_direct b of
       Inl err \<Rightarrow> (Inl err, b)
     | Inr data \<Rightarrow>
         if (\<exists>(k, rooms) \<in> set data. room_id evt \<in> set rooms)
         then (let b1 = reply evt (message b) None b;
                   (res, d) = store_message (mxid b1) (event_id evt) (room_id evt) (database b1)
               in (res, b1\<lparr>database := d\<rparr>))
         else (Inr (), b))"
  using assms
  by (auto simp: auto_reply_def is_direct_def is_direct_items_iff split: sum.splits bool.splits)

text \<open>
  \<^verbatim>\<open>_auto_reply\<close> in a room whose markers, if any, are the user's own: the
  \<^verbatim>\<open>INSERT\<close> after the reply cannot hit a key then.
\<close>

lemma auto_reply_cases:
  assumes "\<forall>(r, e, u) \<in> set (autoreply_messages (database b)). r = room_id evt \<longrightarrow> u = mxid b"
  shows "auto_reply evt b =
    (if sender evt \<noteq> mxid b \<and> is_away (mxid b) (database b)
        \<and> get_message_id_in_room (mxid b) (room_id evt) (database b) = None
     then (case m_direct b of
             Inl err \<Rightarrow> (Inl err, b)
           | Inr data \<Rightarrow>
               if (\<exists>(k, rooms) \<in> set data. room_id evt \<in> set rooms)
               then (Inr (),
                     b\<lparr>outbox := outbox b @
                         [\<lparr>in_room = room_id evt, in_reply_to = event_id evt,
                           content = message b, markdown = None\<rparr>],
                       database := (database b)\<lparr>autoreply_messages :=
                         autoreply_messages (database b) @ [(room_id evt, event_id evt, mxid b)]\<rparr>\<rparr>)
               else (Inr (), b))
     else (Inr (), b))"
proof (cases "sender evt \<noteq> mxid b \<and> is_away (mxid b) (database b)
        \<and> get_message_id_in_room (mxid b) (room_id evt) (database b) = None")
  case False
  then show ?thesis by (auto simp: auto_reply_def)
next
  case True
  then have "find (\<lambda>(r, e, u). r = room_id evt \<and> u = mxid b) (autoreply_messages (database b)) = None"
    by (simp add: get_message_id_in_room_def)
  with assms have "find (\<lambda>(r, e, u). r = room_id evt) (autoreply_messages (database b)) = None"
    by (rule no_row_in_room)
  with True show ?thesis
    by (auto simp: auto_reply_def is_direct_def is_direct_items_iff reply_def store_message_def
        split: sum.splits bool.splits)
qed

text \<open>Once a room has a marker of the user, messages in it change nothing.\<close>

lemma marked_room_ignored:
  assumes "get_message_id_in_room (mxid b) rid (database b) \<noteq> None"
    and "rid \<noteq> management_room b"
    and "\<forall>evt \<in> set es. room_id evt = rid"
  shows "handle_messages es b = b"
  using assms(3) by (induction es) (use assms(1,2) in \<open>auto simp: handle_message_def auto_reply_def\<close>)

text \<open>
  The first of a run of messages in a direct room is answered and recorded, the later
  ones are not, as long as the room has no marker written for another user.
\<close>

lemma first_message_only:
  assumes evts: "\<forall>evt \<in> set (e1 # es). room_id evt = rid \<and> sender evt \<noteq> mxid b"
    and room: "rid \<noteq> management_room b"
    and direct: "m_direct b = Inr data" "\<exists>(k, rooms) \<in> set data. rid \<in> set rooms"
    and away: "is_away (mxid b) (database b)"
    and first: "get_message_id_in_room (mxid b) rid (database b) = None"
    and own: "\<forall>(r, e, u) \<in> set (autoreply_messages (database b)). r = rid \<longrightarrow> u = mxid b"
  shows "handle_messages (e1 # es) b = snd (handle_message e1 b) \<and>
    handle_messages (e1 # es) b =
      b\<lparr>outbox := outbox b @
          [\<lparr>in_room = rid, in_reply_to = event_id e1, content = message b, markdown = None\<rparr>],
        database := (database b)\<lparr>autoreply_messages :=
          autoreply_messages (database b) @ [(rid, event_id e1, mxid b)]\<rparr>\<rparr> \<and>
    filter (\<lambda>(r, e). r = rid)
      (get_missed_messages (mxid b) (database (handle_messages (e1 # es) b))) = [(rid, event_id e1)]"
proof -
  let ?b1 = "b\<lparr>outbox := outbox b @
          [\<lparr>in_room = rid, in_reply_to = event_id e1, content = message b, markdown = None\<rparr>],
        database := (database b)\<lparr>autoreply_messages :=
          autoreply_messages (database b) @ [(rid, event_id e1, mxid b)]\<rparr>\<rparr>"
  have e1: "room_id e1 = rid" "sender e1 \<noteq> mxid b" and es: "\<forall>evt \<in> set es. room_id evt = rid"
    using evts by auto
  have own1: "\<forall>(r, e, u) \<in> set (autoreply_messages (database b)). r = room_id e1 \<longrightarrow> u = mxid b"
    using own e1 by simp
  have step: "handle_message e1 b = (Inr (), ?b1)"
    using e1 room direct away first
    by (simp add: handle_message_def auto_reply_cases [OF own1])
  have none: "find (\<lambda>(r, e, u). r = rid \<and> u = mxid b) (autoreply_messages (database b)) = None"
    using first by (simp add: get_message_id_in_room_def)
  then have "get_message_id_in_room (mxid ?b1) rid (database ?b1) \<noteq> None"
    by (simp add: get_message_id_in_room_def find_append_row)
  moreover have "rid \<noteq> management_room ?b1"
    using room by simp
  ultimately have rest: "handle_messages es ?b1 = ?b1"
    using es by (rule marked_room_ignored)
  have "find (\<lambda>(r, e, u). r = rid) (autoreply_messages (database b)) = None"
    using own none by (rule no_row_in_room)
  then have "filter (\<lambda>(r, e, u). r = rid) (autoreply_messages (database b)) = []"
    by (auto simp: find_None_iff filter_empty_conv)
  then have "filter (\<lambda>(r, e). r = rid) (get_missed_messages (mxid b) (database b)) = []"
    by (auto simp: get_missed_messages_def filter_empty_conv)
  then have "filter (\<lambda>(r, e). r = rid) (get_missed_messages (mxid b) (database ?b1))
      = [(rid, event_id e1)]"
    by (simp add: get_missed_messages_def)
  with step rest show ?thesis
    by simp
qed

lemma first_message_only_example:
  "handle_messages [msg_a, msg_b] away_bot = snd (handle_message msg_a away_bot) \<and>
   outbox (handle_messages [msg_a, msg_b] away_bot) =
     [\<lparr>in_room = ''!dm:example.org'', in_reply_to = ''$a'', content = ''I am away.'',
       markdown = None\<rparr>] \<and>
   get_missed_messages (mxid away_bot) (database (handle_messages [msg_a, msg_b] away_bot))
     = [(''!dm:example.org'', ''$a'')]"
  by (simp add: examples is_away_def get_message_id_in_room_def is_direct_def
      handle_message_def auto_reply_def reply_def store_message_def get_missed_messages_def)


section \<open>The claims\<close>

subsection \<open>C1: when the auto-reply is sent\<close>

text \<open>
  C1, as amended. For a message outside the management room, in any room: when the
  sender is the bot, the stored away flag is not true or the room already has a marker
  of the owner, nothing is sent, nothing is changed and no error is raised; so too
  when these three tests pass and the room is in no list of the account data. When the
  three tests pass and the request for the account data fails, nothing is sent and
  nothing is changed, and the handler ends with that error. When the three tests pass
  and the room occurs in some list of the account data, and the room has no marker
  written for another user, the handler sends the configured text as a reply to the
  message and then stores the marker (room, event) of that message.
\<close>

theorem auto_reply_criteria:
  assumes "room_id evt \<noteq> management_room b"
  shows "(\<not> (sender evt \<noteq> mxid b \<and> is_away (mxid b) (database b)
            \<and> get_message_id_in_room (mxid b) (room_id evt) (database b) = None)
          \<longrightarrow> handle_message evt b = (Inr (), b)) \<and>
    (sender evt \<noteq> mxid b \<and> is_away (mxid b) (database b)
        \<and> get_message_id_in_room (mxid b) (room_id evt) (database b) = None
     \<longrightarrow> (case m_direct b of
            Inl err \<Rightarrow> handle_message evt b = (Inl err, b)
          | Inr data \<Rightarrow>
              if (\<exists>(k, rooms) \<in> set data. room_id evt \<in> set rooms)
              then (\<forall>(r, e, u) \<in> set (autoreply_messages (database b)).
                      r = room_id evt \<longrightarrow> u = mxid b)
                \<longrightarrow> handle_message evt b =
                      (Inr (),
                       b\<lparr>outbox := outbox b @
                           [\<lparr>in_room = room_id evt, in_reply_to = event_id evt,
                             content = message b, markdown = None\<rparr>],
                         database := (database b)\<lparr>autoreply_messages :=
                           autoreply_messages (database b)
                             @ [(room_id evt, event_id evt, mxid b)]\<rparr>\<rparr>)
              else handle_message evt b = (Inr (), b)))"
proof (intro conjI impI)
  assume "\<not> (sender evt \<noteq> mxid b \<and> is_away (mxid b) (database b)
            \<and> get_message_id_in_room (mxid b) (room_id evt) (database b) = None)"
  then show "handle_message evt b = (Inr (), b)"
    using assms by (simp add: handle_message_def auto_reply_skipped)
next
  assume asked: "sender evt \<noteq> mxid b \<and> is_away (mxid b) (database b)
        \<and> get_message_id_in_room (mxid b) (room_id evt) (database b) = None"
  then have run: "handle_message evt b =
    (case m_direct b of
       Inl err \<Rightarrow> (Inl err, b)
     | Inr data \<Rightarrow>
         if (\<exists>(k, rooms) \<in> set data. room_id evt \<in> set rooms)
         then (let b1 = reply evt (message b) None b;
                   (res, d) = store_message (mxid b1) (event_id evt) (room_id evt) (database b1)
               in (res, b1\<lparr>database := d\<rparr>))
         else (Inr (), b))"
    using assms by (simp add: handle_message_def auto_reply_asked)
  from asked have none:
    "find (\<lambda>(r, e, u). r = room_id evt \<and> u = mxid b) (autoreply_messages (database b)) = None"
    by (simp add: get_message_id_in_room_def)
  show "case m_direct b of
            Inl err \<Rightarrow> handle_message evt b = (Inl err, b)
          | Inr data \<Rightarrow>
              if (\<exists>(k, rooms) \<in> set data. room_id evt \<in> set rooms)
              then (\<forall>(r, e, u) \<in> set (autoreply_messages (database b)).
                      r = room_id evt \<longrightarrow> u = mxid b)
                \<longrightarrow> handle_message evt b =
                      (Inr (),
                       b\<lparr>outbox := outbox b @
                           [\<lparr>in_room = room_id evt, in_reply_to = event_id evt,
                             content = message b, markdown = None\<rparr>],
                         database := (database b)\<lparr>autoreply_messages :=
                           autoreply_messages (database b)
                             @ [(room_id evt, event_id evt, mxid b)]\<rparr>\<rparr>)
              else handle_message evt b = (Inr (), b)"
  proof (cases "m_direct b")
    case (Inl err)
    with run show ?thesis by simp
  next
    case (Inr data)
    show ?thesis
    proof (cases "\<exists>(k, rooms) \<in> set data. room_id evt \<in> set rooms")
      case False
      with run Inr show ?thesis by simp
    next
      case True
      have "handle_message evt b =
                      (Inr (),
                       b\<lparr>outbox := outbox b @
                           [\<lparr>in_room = room_id evt, in_reply_to = event_id evt,
                             content = message b, markdown = None\<rparr>],
                         database := (database b)\<lparr>autoreply_messages :=
                           autoreply_messages (database b)
                             @ [(room_id evt, event_id evt, mxid b)]\<rparr>\<rparr>)"
        if own: "\<forall>(r, e, u) \<in> set (autoreply_messages (database b)).
                      r = room_id evt \<longrightarrow> u = mxid b"
      proof -
        from own none
        have "find (\<lambda>(r, e, u). r = room_id evt) (autoreply_messages (database b)) = None"
          by (rule no_row_in_room)
        with run Inr True show ?thesis
          by (simp add: reply_def store_message_def)
      qed
      with Inr True show ?thesis by simp
    qed
  qed
qed

theorem auto_reply_criteria_witness:
  "room_id msg_a \<noteq> management_room away_bot \<and>
   handle_message msg_a away_bot =
     (Inr (),
      away_bot\<lparr>outbox :=
          [\<lparr>in_room = ''!dm:example.org'', in_reply_to = ''$a'', content = ''I am away.'',
            markdown = None\<rparr>],
        database := (database away_bot)\<lparr>autoreply_messages :=
          [(''!elsewhere:example.org'', ''$x'', ''@other:example.org''),
           (''!dm:example.org'', ''$a'', ''@owner:example.org'')]\<rparr>\<rparr>) \<and>
   handle_message msg_b missed_bot = (Inr (), missed_bot) \<and>
   handle_message msg_a offline_bot = (Inl RequestError, offline_bot) \<and>
   handle_message msg_a (shared_bot\<lparr>m_direct := Inr []\<rparr>)
     = (Inr (), shared_bot\<lparr>m_direct := Inr []\<rparr>)"
  using auto_reply_criteria [of msg_a away_bot] auto_reply_criteria [of msg_b missed_bot]
    auto_reply_criteria [of msg_a offline_bot]
    auto_reply_criteria [of msg_a "shared_bot\<lparr>m_direct := Inr []\<rparr>"]
  by (simp add: examples is_away_def get_message_id_in_room_def)

text \<open>
  The claim as stated fails at two inputs. In \<open>shared_bot\<close> the four criteria hold as the
  handler tests them, the reply is sent, and the \<^verbatim>\<open>INSERT\<close> then raises on the key
  \<^verbatim>\<open>room_id\<close>: no marker is stored. In \<open>offline_bot\<close> the request for the account data
  raises, and the handler ends with that error instead of doing nothing in silence.
\<close>

theorem auto_reply_criteria_counterexample:
  "room_id msg_a \<noteq> management_room shared_bot \<and>
   sender msg_a \<noteq> mxid shared_bot \<and>
   is_away (mxid shared_bot) (database shared_bot) \<and>
   get_message_id_in_room (mxid shared_bot) (room_id msg_a) (database shared_bot) = None \<and>
   is_direct shared_bot (room_id msg_a) = Inr True \<and>
   handle_message msg_a shared_bot =
     (Inl UniqueViolation,
      shared_bot\<lparr>outbox :=
        [\<lparr>in_room = ''!dm:example.org'', in_reply_to = ''$a'', content = ''I am away.'',
          markdown = None\<rparr>]\<rparr>) \<and>
   room_id msg_a \<noteq> management_room offline_bot \<and>
   handle_message msg_a offline_bot = (Inl RequestError, offline_bot)"
  by (simp add: examples is_away_def get_message_id_in_room_def is_direct_def
      handle_message_def auto_reply_def reply_def store_message_def)


subsection \<open>C2: one marker and one reply per room\<close>

text \<open>
  C2 says that of any run of messages from others in one direct room, while the owner
  is away, only the first is answered and recorded. The code does so where the room has
  no marker written for another user (\<open>first_message_only\<close> above). It does not in
  \<open>shared_bot\<close>, where the messages table already holds a row for the room under another
  \<^verbatim>\<open>user_id\<close>: the lookup, which filters on the user, finds no marker, the reply is
  sent, the \<^verbatim>\<open>INSERT\<close> raises on the key \<^verbatim>\<open>room_id\<close>, and the next message is
  answered again. Two messages give two replies and no marker of the owner.
\<close>

theorem shared_room_replies_twice:
  "sender msg_a \<noteq> mxid shared_bot \<and> sender msg_b \<noteq> mxid shared_bot \<and>
   room_id msg_a = room_id msg_b \<and>
   room_id msg_a \<noteq> management_room shared_bot \<and>
   is_direct shared_bot (room_id msg_a) = Inr True \<and>
   is_away (mxid shared_bot) (database shared_bot) \<and>
   get_message_id_in_room (mxid shared_bot) (room_id msg_a) (database shared_bot) = None \<and>
   handle_messages [msg_a, msg_b] shared_bot =
     shared_bot\<lparr>outbox :=
       [\<lparr>in_room = ''!dm:example.org'', in_reply_to = ''$a'', content = ''I am away.'',
         markdown = None\<rparr>,
        \<lparr>in_room = ''!dm:example.org'', in_reply_to = ''$b'', content = ''I am away.'',
         markdown = None\<rparr>]\<rparr> \<and>
   get_missed_messages (mxid shared_bot)
     (database (handle_messages [msg_a, msg_b] shared_bot)) = []"
  by (simp add: examples is_away_def get_message_id_in_room_def is_direct_def
      handle_message_def auto_reply_def reply_def store_message_def get_missed_messages_def)


subsection \<open>C3: the command \<^verbatim>\<open>!back\<close>\<close>

text \<open>
  C3. Handling a message whose body starts with \<^verbatim>\<open>!back\<close> raises no error, sets the
  stored away flag to false, sends exactly one reply, whose content is the confirmation
  followed by the summary of the markers present when the command arrived, and deletes
  the owner's markers: afterwards the list of missed messages is empty and no room has
  a marker of the owner.
\<close>

theorem back_command:
  assumes "startswith (body evt) ''!back''"
  shows "fst (handle_management_command evt b) = Inr () \<and>
    is_away (mxid b) (database (snd (handle_management_command evt b))) = False \<and>
    outbox (snd (handle_management_command evt b)) =
      outbox b @
        [\<lparr>in_room = room_id evt, in_reply_to = event_id evt,
          content = ''Your status has been updated. Welcome back!\<newline>\<newline>''
                      @ fst (generate_missed_messages_summary b),
          markdown = Some True\<rparr>] \<and>
    get_missed_messages (mxid b) (database (snd (handle_management_command evt b))) = [] \<and>
    get_message_id_in_room (mxid b) r (database (snd (handle_management_command evt b))) = None"
proof -
  have "\<not> startswith (body evt) ''!clear''" and "\<not> startswith (body evt) ''!away''"
    using assms prefixes_exclusive [of "body evt"] by auto
  with assms show ?thesis
    by (simp add: handle_management_command_cases reply_def)
qed

theorem back_command_witness:
  "startswith (body cmd_back) ''!back'' \<and>
   fst (handle_management_command cmd_back missed_bot) = Inr () \<and>
   is_away (mxid missed_bot) (database (snd (handle_management_command cmd_back missed_bot)))
     = False \<and>
   outbox (snd (handle_management_command cmd_back missed_bot)) =
     [\<lparr>in_room = ''!mgmt:example.org'', in_reply_to = ''$c'',
       content = ''Your status has been updated. Welcome back!\<newline>\<newline>''
         @ ''While you were away, you have missed messages in the following DM(s):\<newline>''
         @ ''\<newline>* [!dm:example.org](https://matrix.to/#/!dm:example.org)''
         @ '' ([view message](https://matrix.to/#/!dm:example.org/$a))'',
       markdown = Some True\<rparr>] \<and>
   get_missed_messages (mxid missed_bot)
     (database (snd (handle_management_command cmd_back missed_bot))) = [] \<and>
   get_message_id_in_room (mxid missed_bot) ''!dm:example.org''
     (database (snd (handle_management_command cmd_back missed_bot))) = None"
  using back_command [of cmd_back missed_bot "''!dm:example.org''"]
  by (simp add: examples startswith_def generate_missed_messages_summary_def
      get_missed_messages_def generate_room_entry_def)


subsection \<open>C4: a failing lookup of the account data\<close>

text \<open>
  C4, as amended. When the request for the account data fails, the auto-reply handler
  sends no reply and changes nothing, and it ends with the error of the request whenever
  it makes the request, that is whenever the sender is not the bot, the owner is away
  and the room has no marker yet; otherwise it does not ask and ends without error.
\<close>

theorem lookup_failure_propagates:
  assumes "m_direct b = Inl err"
  shows "auto_reply evt b =
    (if sender evt \<noteq> mxid b \<and> is_away (mxid b) (database b)
        \<and> get_message_id_in_room (mxid b) (room_id evt) (database b) = None
     then Inl err else Inr (), b)"
  using assms by (simp add: auto_reply_def is_direct_def)

theorem lookup_failure_propagates_witness:
  "m_direct offline_bot = Inl RequestError \<and>
   auto_reply msg_a offline_bot = (Inl RequestError, offline_bot)"
  using lookup_failure_propagates [of offline_bot RequestError msg_a]
  by (simp add: examples is_away_def get_message_id_in_room_def)

text \<open>The error reaches the caller: the handler does not end as it does for a room
  that is not direct.\<close>

theorem lookup_failure_counterexample:
  "sender msg_b \<noteq> mxid offline_bot \<and>
   is_away (mxid offline_bot) (database offline_bot) \<and>
   get_message_id_in_room (mxid offline_bot) (room_id msg_b) (database offline_bot) = None \<and>
   is_direct offline_bot (room_id msg_b) = Inl RequestError \<and>
   fst (auto_reply msg_b offline_bot) = Inl RequestError \<and>
   fst (auto_reply msg_b offline_bot) \<noteq> Inr ()"
  by (simp add: examples is_away_def get_message_id_in_room_def is_direct_def auto_reply_def)


subsection \<open>C5: the summary of missed messages\<close>

text \<open>
  C5. The summary is a function of the list that \<^verbatim>\<open>get_missed_messages\<close> returns: the
  fixed sentence for the empty list, and otherwise the header line followed, for each
  marker in the order of the list, by a bullet with a \<^verbatim>\<open>matrix.to\<close> link of the room
  and a \<^verbatim>\<open>matrix.to\<close> link of the room and the event. Generating it leaves the state as
  it was.
\<close>

theorem summary_of_markers:
  "generate_missed_messages_summary b =
     (if get_missed_messages (mxid b) (database b) = []
      then ''You haven't missed any message while you were away.''
      else ''While you were away, you have missed messages in the following DM(s):\<newline>'' @
           concat (map (\<lambda>(r, e). ''\<newline>* ['' @ r @ ''](https://matrix.to/#/'' @ r @ '')''
                                  @ '' ([view message](https://matrix.to/#/'' @ r @ ''/'' @ e @ ''))'')
                     (get_missed_messages (mxid b) (database b))),
      b)"
  by (simp add: generate_missed_messages_summary_def generate_room_entry_def
      foldl_append_entries Let_def)

lemma summary_example:
  "fst (generate_missed_messages_summary
     (away_bot\<lparr>database := (database away_bot)\<lparr>autoreply_messages :=
        [(''!a:example.org'', ''$1'', ''@owner:example.org''),
         (''!b:example.org'', ''$2'', ''@owner:example.org'')]\<rparr>\<rparr>)) =
   ''While you were away, you have missed messages in the following DM(s):\<newline>''
   @ ''\<newline>* [!a:example.org](https://matrix.to/#/!a:example.org)''
   @ '' ([view message](https://matrix.to/#/!a:example.org/$1))''
   @ ''\<newline>* [!b:example.org](https://matrix.to/#/!b:example.org)''
   @ '' ([view message](https://matrix.to/#/!b:example.org/$2))''"
  by (simp add: examples generate_missed_messages_summary_def get_missed_messages_def
      generate_room_entry_def)


subsection \<open>C6: the three commands\<close>

text \<open>
  C6. For every body, the handler of the management room runs the branch of
  \<^verbatim>\<open>!clear\<close>, of \<^verbatim>\<open>!away\<close> or of \<^verbatim>\<open>!back\<close> exactly when the body starts with
  that prefix, and does nothing when it starts with none. No body starts with two of
  the prefixes, so at most one branch runs, and the handler sends one reply for a
  recognised command and none otherwise.
\<close>

theorem management_command_dispatch:
  "handle_management_command evt b =
     (Inr (),
      if startswith (body evt) ''!clear''
      then reply evt ''Cleared messages'' None
             (b\<lparr>database := clear_messages (mxid b) (database b)\<rparr>)
      else if startswith (body evt) ''!away''
      then reply evt ''Your status has been updated. Have a nice break!'' None
             (b\<lparr>database := update_away_state (mxid b) True (database b)\<rparr>)
      else if startswith (body evt) ''!back''
      then (reply evt
              (''Your status has been updated. Welcome back!\<newline>\<newline>''
                 @ fst (generate_missed_messages_summary b))
              (Some True)
              (b\<lparr>database := update_away_state (mxid b) False (database b)\<rparr>))
           \<lparr>database := clear_messages (mxid b) (update_away_state (mxid b) False (database b))\<rparr>
      else b) \<and>
   \<not> (startswith (body evt) ''!clear'' \<and> startswith (body evt) ''!away'') \<and>
   \<not> (startswith (body evt) ''!clear'' \<and> startswith (body evt) ''!back'') \<and>
   \<not> (startswith (body evt) ''!away'' \<and> startswith (body evt) ''!back'') \<and>
   length (outbox (snd (handle_management_command evt b))) =
     length (outbox b) +
       (if startswith (body evt) ''!clear'' \<or> startswith (body evt) ''!away''
           \<or> startswith (body evt) ''!back'' then 1 else 0)"
  using prefixes_exclusive [of "body evt"]
  by (simp add: handle_management_command_cases reply_def)


subsection \<open>C7: setting the away state twice\<close>

text \<open>
  C7. \<^verbatim>\<open>update_away_state\<close> cannot raise. Called twice with \<^verbatim>\<open>is_away = True\<close> on a
  database with its primary keys, the second call leaves the database as the first
  left it, the user is away, and the away table has exactly one row of the user.
\<close>

theorem update_away_state_idempotent:
  assumes "primary_keys d"
  shows "update_away_state u True (update_away_state u True d) = update_away_state u True d \<and>
    is_away u (update_away_state u True (update_away_state u True d)) \<and>
    length (filter (\<lambda>(k, a). k = u)
           (autoreply_user_away (update_away_state u True (update_away_state u True d)))) = 1 \<and>
    primary_keys (update_away_state u True (update_away_state u True d))"
proof -
  let ?d1 = "update_away_state u True d"
  have twice: "update_away_state u True ?d1 = ?d1"
    by (rule update_away_state_twice)
  have pk: "primary_keys ?d1"
    using assms by (rule primary_keys_update_away)
  then have "distinct (map fst (autoreply_user_away ?d1))"
    by (simp add: primary_keys_def)
  moreover have "u \<in> fst ` set (autoreply_user_away ?d1)"
    using away_keys_update [of u True d] by (metis in_set_conv_decomp list.set_map)
  ultimately have "length (filter (\<lambda>(k, a). k = u) (autoreply_user_away ?d1)) = 1"
    by (rule one_row_of_key)
  with twice pk show ?thesis
    by simp
qed

theorem update_away_state_idempotent_witness:
  "primary_keys (database away_bot) \<and>
   update_away_state ''@owner:example.org'' True
     (update_away_state ''@owner:example.org'' True (database away_bot))
     = update_away_state ''@owner:example.org'' True (database away_bot) \<and>
   autoreply_user_away (update_away_state ''@owner:example.org'' True
     (update_away_state ''@owner:example.org'' True (database away_bot)))
     = [(''@owner:example.org'', True)]"
  using update_away_state_idempotent [of "database away_bot" "''@owner:example.org''"]
  by (simp add: examples primary_keys_def update_away_state_def)


subsection \<open>C8: the command \<^verbatim>\<open>!clear\<close>\<close>

text \<open>
  C8. Handling a message whose body starts with \<^verbatim>\<open>!clear\<close> deletes the owner's
  markers and sends the one fixed confirmation; the away flag, the away table, the
  stored management room and the management room of the instance stay as they were.
\<close>

theorem clear_command:
  assumes "startswith (body evt) ''!clear''"
  shows "fst (handle_management_command evt b) = Inr () \<and>
    get_missed_messages (mxid b) (database (snd (handle_management_command evt b))) = [] \<and>
    outbox (snd (handle_management_command evt b)) =
      outbox b @
        [\<lparr>in_room = room_id evt, in_reply_to = event_id evt,
          content = ''Cleared messages'', markdown = None\<rparr>] \<and>
    is_away (mxid b) (database (snd (handle_management_command evt b)))
      = is_away (mxid b) (database b) \<and>
    autoreply_user_away (database (snd (handle_management_command evt b)))
      = autoreply_user_away (database b) \<and>
    get_management_room (mxid b) (database (snd (handle_management_command evt b)))
      = get_management_room (mxid b) (database b) \<and>
    management_room (snd (handle_management_command evt b)) = management_room b"
  using assms
  by (simp add: handle_management_command_cases reply_def clear_messages_def
      is_away_def get_management_room_def get_missed_messages_def filter_empty_conv split_def)

theorem clear_command_witness:
  "startswith (body cmd_clear) ''!clear'' \<and>
   get_missed_messages (mxid missed_bot) (database missed_bot)
     = [(''!dm:example.org'', ''$a'')] \<and>
   get_missed_messages (mxid missed_bot)
     (database (snd (handle_management_command cmd_clear missed_bot))) = [] \<and>
   outbox (snd (handle_management_command cmd_clear missed_bot)) =
     [\<lparr>in_room = ''!mgmt:example.org'', in_reply_to = ''$d'',
       content = ''Cleared messages'', markdown = None\<rparr>] \<and>
   is_away (mxid missed_bot) (database (snd (handle_management_command cmd_clear missed_bot)))"
  using clear_command [of cmd_clear missed_bot]
  by (simp add: examples startswith_def get_missed_messages_def is_away_def)


subsection \<open>C9: the default of \<^verbatim>\<open>is_away\<close>\<close>

text \<open>
  C9. \<^verbatim>\<open>is_away\<close> returns false when the away table has no row of the user, and
  otherwise the boolean of the user's row.
\<close>

theorem is_away_default_or_stored:
  "(user_id \<notin> fst ` set (autoreply_user_away d) \<longrightarrow> is_away user_id d = False) \<and>
   (primary_keys d \<longrightarrow> (user_id, b) \<in> set (autoreply_user_away d) \<longrightarrow> is_away user_id d = b)"
  by (simp add: is_away_def find_fst_None [symmetric] find_fst_distinct primary_keys_def)

theorem is_away_default_or_stored_witness:
  "is_away ''@bot:example.org'' schema_v1 = False \<and>
   is_away ''@bot:example.org''
     (schema_v1\<lparr>autoreply_user_away := [(''@bot:example.org'', True)]\<rparr>) = True"
  using is_away_default_or_stored [of "''@bot:example.org''" schema_v1 True]
    is_away_default_or_stored [of "''@bot:example.org''"
      "schema_v1\<lparr>autoreply_user_away := [(''@bot:example.org'', True)]\<rparr>" True]
  by (simp add: schema_v1_def primary_keys_def)


subsection \<open>C10: the key of the messages table\<close>

text \<open>
  C10. The key of the messages table is \<^verbatim>\<open>room_id\<close> alone. Whatever calls the stores
  of whatever users make on a database created by \<^verbatim>\<open>schema_v1\<close>, the table never has
  two rows for one room; and \<^verbatim>\<open>store_message\<close> for a room that has a row, of any
  user, raises and leaves the database, with that row, as it was.
\<close>

theorem room_id_primary_key:
  "length (filter (\<lambda>(r, e, u). r = rid) (autoreply_messages (calls cs schema_v1))) \<le> 1 \<and>
   ((rid, e0, u0) \<in> set (autoreply_messages d) \<longrightarrow>
      store_message u e rid d = (Inl UniqueViolation, d))"
proof
  have "primary_keys (calls cs schema_v1)"
    using primary_keys_schema_v1 by (rule primary_keys_calls)
  then have "distinct (map fst (autoreply_messages (calls cs schema_v1)))"
    by (simp add: primary_keys_def)
  then show "length (filter (\<lambda>(r, e, u). r = rid) (autoreply_messages (calls cs schema_v1))) \<le> 1"
    by (rule at_most_one_row_of_room)
next
  show "(rid, e0, u0) \<in> set (autoreply_messages d) \<longrightarrow>
      store_message u e rid d = (Inl UniqueViolation, d)"
    by (auto simp: store_message_def find_room_None rev_image_eqI split: option.splits)
qed

theorem room_id_primary_key_witness:
  "(''!dm:example.org'', ''$old'', ''@other:example.org'')
     \<in> set (autoreply_messages (database shared_bot)) \<and>
   store_message ''@owner:example.org'' ''$a'' ''!dm:example.org'' (database shared_bot)
     = (Inl UniqueViolation, database shared_bot) \<and>
   autoreply_messages
     (calls [StoreMessage ''@other:example.org'' ''$old'' ''!dm:example.org'',
             StoreMessage ''@owner:example.org'' ''$a'' ''!dm:example.org''] schema_v1)
     = [(''!dm:example.org'', ''$old'', ''@other:example.org'')]"
  using room_id_primary_key [of "''!dm:example.org''" "[]" "''$old''" "''@other:example.org''"
      "database shared_bot" "''@owner:example.org''" "''$a''"]
  by (simp add: examples schema_v1_def store_message_def)

end
